theory Spec2Isabelle
  imports Main "HOL-Library.Sublist"
begin

section \<open>The Mandala Art Generator: prompt builder and dispatch guard\<close>

text \<open>
  The program is a single Python file, \<^verbatim>\<open>app.py\<close>. Its function
  \<^verbatim>\<open>create_mandala_prompt(word, complexity, style)\<close> builds the text prompt; the
  function \<^verbatim>\<open>main\<close> wires the form, decides when a generation is dispatched and
  parses the image size.

  A Python \<^verbatim>\<open>str\<close> is modelled as a \<open>string\<close> (a list of characters). All text
  the program itself supplies is ASCII; a subject with characters beyond ASCII is the
  list of its UTF-8 bytes, and concatenation and the substring relation agree with
  Python's on such lists. The two characters that cannot stand inside a literal are
  written by their codes: the apostrophe \<open>CHR 0x27\<close> and the line feed \<open>CHR 0x0A\<close>.
\<close>

subsection \<open>Errors\<close>

text \<open>
  Subscripting a dict with a key it does not hold raises \<^verbatim>\<open>KeyError(key)\<close>. This is
  the only exception the prompt builder can raise on string arguments.
\<close>

datatype error = KeyError string

subsection \<open>The form's option lists (\<^verbatim>\<open>main\<close>, lines 110-127)\<close>

definition complexity_options :: "string list" where
  "complexity_options = [''Simple'', ''Moderate'', ''Detailed'', ''Very Detailed'']"

definition style_options :: "string list" where
  "style_options =
     [''Traditional Mandala'', ''Geometric Patterns'', ''Nature-Inspired'', ''Abstract Designs'']"

definition size_options :: "string list" where
  "size_options = [''1024x1024 (Standard)'', ''1792x1024 (Wide)'', ''1024x1792 (Tall)'']"

subsection \<open>The prompt builder (\<^verbatim>\<open>create_mandala_prompt\<close>, lines 255-292)\<close>

text \<open>
  The base prompt is an f-string over two source lines: the text up to the opening
  apostrophe, the word, then the closing apostrophe, a full stop, a blank, the line feed
  and the second line with its four blanks of indentation.
\<close>

definition base_prompt_head :: string where
  "base_prompt_head =
     ''Create a beautiful, symmetrical Mandala artwork inspired by the word '' @ [CHR 0x27]"

definition base_prompt_tail :: string where
  "base_prompt_tail =
     [CHR 0x27] @ ''. '' @ [CHR 0x0A] @
     ''    The design should be in black and white line art style, perfect for coloring books.''"

definition base_prompt :: "string \<Rightarrow> string" where
  "base_prompt word = base_prompt_head @ word @ base_prompt_tail"

definition complexity_prompts :: "string \<rightharpoonup> string" where
  "complexity_prompts = map_of
     [(''Simple'',
       ''Use clean, simple geometric patterns with wide spaces for easy coloring. Minimal detail, bold lines.''),
      (''Moderate'',
       ''Include moderate detail with traditional mandala elements like circles, petals, and geometric shapes.''),
      (''Detailed'',
       ''Create intricate patterns with fine details, multiple layers, and complex geometric arrangements.''),
      (''Very Detailed'',
       ''Design an extremely detailed mandala with very fine lines, multiple concentric circles, and elaborate patterns.'')]"

definition style_prompts :: "string \<rightharpoonup> string" where
  "style_prompts = map_of
     [(''Traditional Mandala'',
       ''Follow traditional Sanskrit mandala design principles with circular symmetry, lotus petals, and sacred geometry.''),
      (''Geometric Patterns'',
       ''Focus on geometric shapes, mathematical patterns, triangles, hexagons, and angular designs.''),
      (''Nature-Inspired'',
       ''Incorporate natural elements like flowers, leaves, vines, and organic flowing patterns.''),
      (''Abstract Designs'',
       ''Create abstract, flowing patterns with curved lines and artistic interpretations.'')]"

text \<open>
  The technical block is a triple-quoted literal: it opens with a line feed, every line
  is indented by four blanks, and it ends with a line feed and four blanks.
\<close>

definition technical_specs :: string where
  "technical_specs =
     [CHR 0x0A] @ ''    IMPORTANT: The artwork must be:'' @
     [CHR 0x0A] @ ''    - Pure black lines on white background'' @
     [CHR 0x0A] @ ''    - High contrast for clear printing'' @
     [CHR 0x0A] @ ''    - Perfectly symmetrical (8-fold or 12-fold radial symmetry)'' @
     [CHR 0x0A] @ ''    - No shading, gradients, or gray tones'' @
     [CHR 0x0A] @ ''    - Clean, printable line art style'' @
     [CHR 0x0A] @ ''    - Suitable for coloring with pens, pencils, or markers'' @
     [CHR 0x0A] @ ''    ''"

text \<open>
  The final f-string evaluates its fields from left to right: the complexity lookup comes
  before the style lookup, so when both keys are missing the \<^verbatim>\<open>KeyError\<close> carries the
  complexity. The four fields are separated by single blanks. The body names nothing but
  its three parameters and its own local literals, so it is written as a function of the
  three arguments.
\<close>

definition create_mandala_prompt :: "string \<Rightarrow> string \<Rightarrow> string \<Rightarrow> error + string" where
  "create_mandala_prompt word complexity style =
     (case complexity_prompts complexity of
        None \<Rightarrow> Inl (KeyError complexity)
      | Some cclause \<Rightarrow>
          (case style_prompts style of
             None \<Rightarrow> Inl (KeyError style)
           | Some sclause \<Rightarrow>
               Inr (base_prompt word @ '' '' @ cclause @ '' '' @ sclause @ '' '' @ technical_specs)))"

subsection \<open>The dispatch guard and the size parse (\<^verbatim>\<open>main\<close>, lines 130-155)\<close>

text \<open>
  Python's truth value of a string is its non-emptiness. The button is created with
  \<^verbatim>\<open>disabled=not (api_key and word)\<close>.
\<close>

definition button_disabled :: "string \<Rightarrow> string \<Rightarrow> bool" where
  "button_disabled api_key word = (\<not> (api_key \<noteq> [] \<and> word \<noteq> []))"

text \<open>
  The right-hand column is an \<^verbatim>\<open>if\<close>/\<^verbatim>\<open>elif\<close>/\<^verbatim>\<open>elif\<close> chain with no
  \<^verbatim>\<open>else\<close>: the generation branch, the two hints, or nothing.
\<close>

datatype branch = Generate | InfoApiKey | InfoWord | Idle

definition main_branch :: "bool \<Rightarrow> string \<Rightarrow> string \<Rightarrow> branch" where
  "main_branch generate_button api_key word =
     (if generate_button \<and> api_key \<noteq> [] \<and> word \<noteq> [] then Generate
      else if api_key = [] then InfoApiKey
      else if word = [] then InfoWord
      else Idle)"

text \<open>
  The size parse tests substrings with Python's \<^verbatim>\<open>in\<close>, in this order. The
  source's variable \<^verbatim>\<open>size\<close> is written \<open>size_str\<close>.
\<close>

definition image_size :: "string \<Rightarrow> string" where
  "image_size size_str =
     (if sublist ''1792x1024'' size_str then ''1792x1024''
      else if sublist ''1024x1792'' size_str then ''1024x1792''
      else ''1024x1024'')"

subsection \<open>Capitals and punctuation of a text\<close>

text \<open>
  An auxiliary notion for the proofs about the clauses, not part of the program: the
  capital letters, commas and full stops of a text, in their order. A substring of a text
  leaves a substring of its marks, and the marks of the program's literals are short.
\<close>

definition marks :: "string \<Rightarrow> string" where
  "marks xs = filter (\<lambda>c. c \<in> set ''ABCDEFGHIJKLMNOPQRSTUVWXYZ,.'') xs"

section \<open>Properties\<close>

subsection \<open>The option lists are the keys of the clause tables\<close>

lemma dom_complexity_prompts: "dom complexity_prompts = set complexity_options"
  by (auto simp: complexity_prompts_def complexity_options_def split: if_splits)

lemma dom_style_prompts: "dom style_prompts = set style_options"
  by (auto simp: style_prompts_def style_options_def split: if_splits)

subsection \<open>Lookups and the three outcomes of the builder\<close>

lemma complexity_prompts_Some:
  "complexity \<in> set complexity_options \<Longrightarrow> \<exists>cclause. complexity_prompts complexity = Some cclause"
  using dom_complexity_prompts by blast

lemma style_prompts_Some:
  "style \<in> set style_options \<Longrightarrow> \<exists>sclause. style_prompts style = Some sclause"
  using dom_style_prompts by blast

lemma complexity_prompts_None:
  "complexity \<notin> set complexity_options \<Longrightarrow> complexity_prompts complexity = None"
  using dom_complexity_prompts by blast

lemma style_prompts_None:
  "style \<notin> set style_options \<Longrightarrow> style_prompts style = None"
  using dom_style_prompts by blast

lemma create_mandala_prompt_Inr:
  "complexity_prompts complexity = Some cclause \<Longrightarrow> style_prompts style = Some sclause \<Longrightarrow>
   create_mandala_prompt word complexity style =
     Inr (base_prompt word @ '' '' @ cclause @ '' '' @ sclause @ '' '' @ technical_specs)"
  by (simp add: create_mandala_prompt_def)

lemma create_mandala_prompt_Inl_complexity:
  "complexity_prompts complexity = None \<Longrightarrow>
   create_mandala_prompt word complexity style = Inl (KeyError complexity)"
  by (simp add: create_mandala_prompt_def)

lemma create_mandala_prompt_Inl_style:
  "complexity_prompts complexity = Some cclause \<Longrightarrow> style_prompts style = None \<Longrightarrow>
   create_mandala_prompt word complexity style = Inl (KeyError style)"
  by (simp add: create_mandala_prompt_def)

lemma Simple_option: "''Simple'' \<in> set complexity_options"
  by (simp add: complexity_options_def)

lemma Traditional_option: "''Traditional Mandala'' \<in> set style_options"
  by (simp add: style_options_def)

lemma Extreme_no_option: "''Extreme'' \<notin> set complexity_options"
  by (simp add: complexity_options_def)

subsection \<open>The shape of the prompt\<close>

text \<open>
  Claim C2. For every valid triple the prompt is made of exactly four parts in this
  order: the base sentence, which embeds the subject verbatim between its fixed head and
  tail; the clause the complexity table holds for the requested complexity; the clause
  the style table holds for the requested style; the technical block. The f-string puts
  one blank between consecutive parts and nothing else.
\<close>

theorem create_mandala_prompt_four_parts:
  assumes "word \<noteq> []" and "complexity \<in> set complexity_options" and "style \<in> set style_options"
  shows "\<exists>cclause sclause.
           complexity_prompts complexity = Some cclause \<and>
           style_prompts style = Some sclause \<and>
           create_mandala_prompt word complexity style =
             Inr (base_prompt word @ '' '' @ cclause @ '' '' @ sclause @ '' '' @ technical_specs) \<and>
           base_prompt word = base_prompt_head @ word @ base_prompt_tail"
proof -
  obtain cclause where c: "complexity_prompts complexity = Some cclause"
    using assms(2) complexity_prompts_Some by blast
  obtain sclause where s: "style_prompts style = Some sclause"
    using assms(3) style_prompts_Some by blast
  from create_mandala_prompt_Inr [OF c s] c s show ?thesis
    by (simp add: base_prompt_def)
qed

theorem create_mandala_prompt_four_parts_witness:
  "''peace'' \<noteq> [] \<and> ''Simple'' \<in> set complexity_options \<and>
   ''Traditional Mandala'' \<in> set style_options \<and>
   (\<exists>cclause sclause.
      complexity_prompts ''Simple'' = Some cclause \<and>
      style_prompts ''Traditional Mandala'' = Some sclause \<and>
      create_mandala_prompt ''peace'' ''Simple'' ''Traditional Mandala'' =
        Inr (base_prompt ''peace'' @ '' '' @ cclause @ '' '' @ sclause @ '' '' @ technical_specs) \<and>
      base_prompt ''peace'' = base_prompt_head @ ''peace'' @ base_prompt_tail)"
  using create_mandala_prompt_four_parts [of "''peace''" "''Simple''" "''Traditional Mandala''"]
    Simple_option Traditional_option
  by simp

text \<open>
  Claim C3. For every valid triple the prompt contains the subject verbatim, as a
  contiguous substring.
\<close>

theorem create_mandala_prompt_contains_subject:
  assumes "word \<noteq> []" and "complexity \<in> set complexity_options" and "style \<in> set style_options"
  shows "\<exists>p. create_mandala_prompt word complexity style = Inr p \<and> sublist word p"
proof -
  obtain cclause where c: "complexity_prompts complexity = Some cclause"
    using assms(2) complexity_prompts_Some by blast
  obtain sclause where s: "style_prompts style = Some sclause"
    using assms(3) style_prompts_Some by blast
  have "sublist word (base_prompt_head @ word @
          (base_prompt_tail @ '' '' @ cclause @ '' '' @ sclause @ '' '' @ technical_specs))"
    by (rule sublist_appendI)
  then show ?thesis
    using create_mandala_prompt_Inr [OF c s] by (simp add: base_prompt_def)
qed

theorem create_mandala_prompt_contains_subject_witness:
  "''peace'' \<noteq> [] \<and> ''Simple'' \<in> set complexity_options \<and>
   ''Traditional Mandala'' \<in> set style_options \<and>
   (\<exists>p. create_mandala_prompt ''peace'' ''Simple'' ''Traditional Mandala'' = Inr p \<and>
        sublist ''peace'' p)"
  using create_mandala_prompt_contains_subject
    [of "''peace''" "''Simple''" "''Traditional Mandala''"]
    Simple_option Traditional_option
  by simp

text \<open>
  Claim C5. For every valid triple, whatever the subject, complexity and style, the
  prompt contains the technical block in full and unmodified; it is the end of the prompt.
\<close>

theorem create_mandala_prompt_contains_technical_specs:
  assumes "word \<noteq> []" and "complexity \<in> set complexity_options" and "style \<in> set style_options"
  shows "\<exists>p. create_mandala_prompt word complexity style = Inr p \<and>
             sublist technical_specs p \<and> suffix technical_specs p"
proof -
  obtain cclause where c: "complexity_prompts complexity = Some cclause"
    using assms(2) complexity_prompts_Some by blast
  obtain sclause where s: "style_prompts style = Some sclause"
    using assms(3) style_prompts_Some by blast
  let ?front = "base_prompt word @ '' '' @ cclause @ '' '' @ sclause @ '' ''"
  have eq: "create_mandala_prompt word complexity style = Inr (?front @ technical_specs)"
    using create_mandala_prompt_Inr [OF c s] by simp
  have "suffix technical_specs (?front @ technical_specs)"
    by (rule suffix_appendI) simp
  then show ?thesis
    using eq suffix_imp_sublist by blast
qed

theorem create_mandala_prompt_contains_technical_specs_witness:
  "''peace'' \<noteq> [] \<and> ''Simple'' \<in> set complexity_options \<and>
   ''Traditional Mandala'' \<in> set style_options \<and>
   (\<exists>p. create_mandala_prompt ''peace'' ''Simple'' ''Traditional Mandala'' = Inr p \<and>
        sublist technical_specs p \<and> suffix technical_specs p)"
  using create_mandala_prompt_contains_technical_specs
    [of "''peace''" "''Simple''" "''Traditional Mandala''"]
    Simple_option Traditional_option
  by simp

subsection \<open>Which clauses a prompt contains\<close>

text \<open>
  Taking the marks of a text commutes with concatenation and keeps substrings. The marks
  of each literal of the program are computed once.
\<close>

lemma marks_append: "marks (xs @ ys) = marks xs @ marks ys"
  by (simp add: marks_def)

lemma sublist_filter:
  assumes "sublist xs ys"
  shows "sublist (filter P xs) (filter P ys)"
proof -
  from assms obtain ps ss where "ys = ps @ xs @ ss"
    by (auto simp: sublist_def)
  then have "filter P ys = filter P ps @ filter P xs @ filter P ss"
    by simp
  then show ?thesis
    by (simp only: sublist_appendI)
qed

lemma sublist_marks: "sublist xs ys \<Longrightarrow> sublist (marks xs) (marks ys)"
  unfolding marks_def by (rule sublist_filter)

lemma marks_technical_specs: "marks technical_specs = ''IMPORTANTTPHPN,,C,S,,''"
  by (simp add: marks_def technical_specs_def)

lemma marks_base_prompt_tail: "marks (tl base_prompt_tail) = ''.T,.''"
  by (simp add: marks_def base_prompt_tail_def)

lemma marks_complexity:
  "complexity_prompts c = Some cl \<Longrightarrow>
   (c, marks cl) \<in> set [(''Simple'', ''U,.M,.''), (''Moderate'', ''I,,.''),
                          (''Detailed'', ''C,,.''), (''Very Detailed'', ''D,,.'')]"
  by (auto simp: complexity_prompts_def marks_def split: if_splits)

lemma marks_style:
  "style_prompts s = Some cl \<Longrightarrow>
   (s, marks cl) \<in> set [(''Traditional Mandala'', ''FS,,.''), (''Geometric Patterns'', ''F,,,,.''),
                          (''Nature-Inspired'', ''I,,,.''), (''Abstract Designs'', ''C,.'')]"
  by (auto simp: style_prompts_def marks_def split: if_splits)

text \<open>
  No clause holds an apostrophe, so an occurrence of a clause in a prompt lies wholly
  before the opening apostrophe, wholly inside the subject, or wholly after the closing
  apostrophe.
\<close>

lemma sublist_split_at:
  assumes "c \<notin> set xs"
  shows "sublist xs (as @ c # bs) \<longleftrightarrow> sublist xs as \<or> sublist xs bs"
proof
  assume "sublist xs (as @ c # bs)"
  then consider "sublist xs as" | "sublist xs (c # bs)"
    | xs1 xs2 where "xs = xs1 @ xs2" "suffix xs1 as" "prefix xs2 (c # bs)"
    by (auto simp: sublist_append)
  then show "sublist xs as \<or> sublist xs bs"
  proof cases
    case 1
    then show ?thesis by simp
  next
    case 2
    then have "prefix xs (c # bs) \<or> sublist xs bs"
      by (simp add: sublist_Cons_right)
    moreover have "xs = []" if "prefix xs (c # bs)"
      using that assms by (cases xs) auto
    ultimately show ?thesis by auto
  next
    case 3
    have "xs2 = []"
      using 3(1,3) assms by (cases xs2) auto
    with 3(1,2) show ?thesis
      by (simp add: suffix_imp_sublist)
  qed
next
  assume "sublist xs as \<or> sublist xs bs"
  then show "sublist xs (as @ c # bs)"
  proof
    assume "sublist xs as"
    then show ?thesis
      by (auto simp: sublist_append)
  next
    assume "sublist xs bs"
    then have "sublist xs (c # bs)"
      by (simp add: sublist_Cons_right)
    then show ?thesis
      by (auto simp: sublist_append)
  qed
qed

lemma sublist_quoted:
  assumes "q \<notin> set xs"
  shows "sublist xs (as @ q # w @ q # bs) \<longleftrightarrow> sublist xs as \<or> sublist xs w \<or> sublist xs bs"
  using assms by (simp add: sublist_split_at)

lemma complexity_clause_no_apostrophe:
  "complexity_prompts c = Some cl \<Longrightarrow> CHR 0x27 \<notin> set cl"
  by (auto simp: complexity_prompts_def split: if_splits)

lemma style_clause_no_apostrophe:
  "style_prompts s = Some cl \<Longrightarrow> CHR 0x27 \<notin> set cl"
  by (auto simp: style_prompts_def split: if_splits)

lemma prompt_quoted:
  "base_prompt word @ '' '' @ cclause @ '' '' @ sclause @ '' '' @ technical_specs =
   butlast base_prompt_head @ CHR 0x27 # word @ CHR 0x27 #
     (tl base_prompt_tail @ '' '' @ cclause @ '' '' @ sclause @ '' '' @ technical_specs)"
  by (simp add: base_prompt_def base_prompt_head_def base_prompt_tail_def)

lemma marks_head: "marks (butlast base_prompt_head) = ''C,M''"
  by (simp add: marks_def base_prompt_head_def)

lemma marks_blank: "marks (CHR '' '' # xs) = marks xs"
  by (simp add: marks_def)

lemma marks_rest:
  "marks (tl base_prompt_tail @ '' '' @ cclause @ '' '' @ sclause @ '' '' @ technical_specs) =
   ''.T,.'' @ marks cclause @ marks sclause @ ''IMPORTANTTPHPN,,C,S,,''"
  by (simp add: marks_append marks_blank marks_base_prompt_tail marks_technical_specs)

text \<open>
  After the closing apostrophe the marks are those of the second base line, of the two
  requested clauses and of the technical block; among them the marks of a clause occur
  only where that clause was put.
\<close>

lemma complexity_marks_in_rest:
  assumes "m \<in> set [''U,.M,.'', ''I,,.'', ''C,,.'', ''D,,.'']"
    and "mcc \<in> set [''U,.M,.'', ''I,,.'', ''C,,.'', ''D,,.'']"
    and "ms \<in> set [''FS,,.'', ''F,,,,.'', ''I,,,.'', ''C,.'']"
    and "sublist m (''.T,.'' @ mcc @ ms @ ''IMPORTANTTPHPN,,C,S,,'')"
  shows "m = mcc"
  using assms by (auto simp: sublist_code(3))

lemma style_marks_in_rest:
  assumes "m \<in> set [''FS,,.'', ''F,,,,.'', ''I,,,.'', ''C,.'']"
    and "mcc \<in> set [''U,.M,.'', ''I,,.'', ''C,,.'', ''D,,.'']"
    and "ms \<in> set [''FS,,.'', ''F,,,,.'', ''I,,,.'', ''C,.'']"
    and "sublist m (''.T,.'' @ mcc @ ms @ ''IMPORTANTTPHPN,,C,S,,'')"
  shows "m = ms"
  using assms by (auto simp: sublist_code(3))

lemma marks_complexity_inj:
  assumes "complexity_prompts c = Some cl" and "complexity_prompts c' = Some cl'"
    and "marks cl = marks cl'"
  shows "c = c'"
  using marks_complexity [OF assms(1)] marks_complexity [OF assms(2)] assms(3) by auto

lemma marks_style_inj:
  assumes "style_prompts s = Some cl" and "style_prompts s' = Some cl'"
    and "marks cl = marks cl'"
  shows "s = s'"
  using marks_style [OF assms(1)] marks_style [OF assms(2)] assms(3) by auto

lemma marks_complexity_set:
  "complexity_prompts c = Some cl \<Longrightarrow> marks cl \<in> set [''U,.M,.'', ''I,,.'', ''C,,.'', ''D,,.'']"
  using marks_complexity [of c cl] by auto

lemma marks_style_set:
  "style_prompts s = Some cl \<Longrightarrow> marks cl \<in> set [''FS,,.'', ''F,,,,.'', ''I,,,.'', ''C,.'']"
  using marks_style [of s cl] by auto

lemma complexity_clause_not_in_head:
  assumes "complexity_prompts c = Some cl"
  shows "\<not> sublist cl (butlast base_prompt_head)"
proof
  assume "sublist cl (butlast base_prompt_head)"
  then have "sublist (marks cl) ''C,M''"
    using sublist_marks marks_head by metis
  moreover have "CHR ''.'' \<in> set (marks cl)"
    using marks_complexity [OF assms] by auto
  ultimately show False
    using set_mono_sublist by fastforce
qed

lemma style_clause_not_in_head:
  assumes "style_prompts s = Some cl"
  shows "\<not> sublist cl (butlast base_prompt_head)"
proof
  assume "sublist cl (butlast base_prompt_head)"
  then have "sublist (marks cl) ''C,M''"
    using sublist_marks marks_head by metis
  moreover have "CHR ''.'' \<in> set (marks cl)"
    using marks_style [OF assms] by auto
  ultimately show False
    using set_mono_sublist by fastforce
qed

lemma complexity_clause_in_rest:
  assumes "complexity_prompts c = Some cl"
    and "complexity_prompts complexity = Some cclause"
    and "style_prompts style = Some sclause"
    and "sublist cl (tl base_prompt_tail @ '' '' @ cclause @ '' '' @ sclause @ '' '' @ technical_specs)"
  shows "c = complexity"
proof -
  have "sublist (marks cl) (''.T,.'' @ marks cclause @ marks sclause @ ''IMPORTANTTPHPN,,C,S,,'')"
    using sublist_marks [OF assms(4)] by (simp only: marks_rest)
  then have "marks cl = marks cclause"
    by (rule complexity_marks_in_rest [OF marks_complexity_set [OF assms(1)]
          marks_complexity_set [OF assms(2)] marks_style_set [OF assms(3)]])
  then show ?thesis
    by (rule marks_complexity_inj [OF assms(1,2)])
qed

lemma style_clause_in_rest:
  assumes "style_prompts s = Some cl"
    and "complexity_prompts complexity = Some cclause"
    and "style_prompts style = Some sclause"
    and "sublist cl (tl base_prompt_tail @ '' '' @ cclause @ '' '' @ sclause @ '' '' @ technical_specs)"
  shows "s = style"
proof -
  have "sublist (marks cl) (''.T,.'' @ marks cclause @ marks sclause @ ''IMPORTANTTPHPN,,C,S,,'')"
    using sublist_marks [OF assms(4)] by (simp only: marks_rest)
  then have "marks cl = marks sclause"
    by (rule style_marks_in_rest [OF marks_style_set [OF assms(1)]
          marks_complexity_set [OF assms(2)] marks_style_set [OF assms(3)]])
  then show ?thesis
    by (rule marks_style_inj [OF assms(1,3)])
qed

lemma complexity_clause_in_prompt:
  assumes c: "complexity_prompts c = Some cl"
    and cc: "complexity_prompts complexity = Some cclause"
    and sc: "style_prompts style = Some sclause"
  shows "sublist cl (base_prompt word @ '' '' @ cclause @ '' '' @ sclause @ '' '' @ technical_specs)
           \<longleftrightarrow> c = complexity \<or> sublist cl word"
proof -
  let ?rest = "tl base_prompt_tail @ '' '' @ cclause @ '' '' @ sclause @ '' '' @ technical_specs"
  have split: "sublist cl (base_prompt word @ '' '' @ cclause @ '' '' @ sclause @ '' '' @ technical_specs)
      \<longleftrightarrow> sublist cl (butlast base_prompt_head) \<or> sublist cl word \<or> sublist cl ?rest"
    unfolding prompt_quoted
    by (rule sublist_quoted [OF complexity_clause_no_apostrophe [OF c]])
  have rest: "sublist cl ?rest \<longleftrightarrow> c = complexity"
  proof
    assume "sublist cl ?rest"
    then show "c = complexity"
      by (rule complexity_clause_in_rest [OF c cc sc])
  next
    assume "c = complexity"
    with c cc have "cl = cclause" by simp
    moreover have "sublist cclause ((tl base_prompt_tail @ '' '') @ cclause @
                     ('' '' @ sclause @ '' '' @ technical_specs))"
      by (rule sublist_appendI)
    ultimately show "sublist cl ?rest" by simp
  qed
  from split rest complexity_clause_not_in_head [OF c] show ?thesis
    by blast
qed

lemma style_clause_in_prompt:
  assumes s: "style_prompts s = Some cl"
    and cc: "complexity_prompts complexity = Some cclause"
    and sc: "style_prompts style = Some sclause"
  shows "sublist cl (base_prompt word @ '' '' @ cclause @ '' '' @ sclause @ '' '' @ technical_specs)
           \<longleftrightarrow> s = style \<or> sublist cl word"
proof -
  let ?rest = "tl base_prompt_tail @ '' '' @ cclause @ '' '' @ sclause @ '' '' @ technical_specs"
  have split: "sublist cl (base_prompt word @ '' '' @ cclause @ '' '' @ sclause @ '' '' @ technical_specs)
      \<longleftrightarrow> sublist cl (butlast base_prompt_head) \<or> sublist cl word \<or> sublist cl ?rest"
    unfolding prompt_quoted
    by (rule sublist_quoted [OF style_clause_no_apostrophe [OF s]])
  have rest: "sublist cl ?rest \<longleftrightarrow> s = style"
  proof
    assume "sublist cl ?rest"
    then show "s = style"
      by (rule style_clause_in_rest [OF s cc sc])
  next
    assume "s = style"
    with s sc have "cl = sclause" by simp
    moreover have "sublist sclause ((tl base_prompt_tail @ '' '' @ cclause @ '' '') @ sclause @
                     ('' '' @ technical_specs))"
      by (rule sublist_appendI)
    ultimately show "sublist cl ?rest" by simp
  qed
  from split rest style_clause_not_in_head [OF s] show ?thesis
    by blast
qed

text \<open>
  Claim C4 says that no clause of another complexity or style value appears in the prompt
  of a valid triple. The subject is free text and is embedded verbatim: with the Abstract
  Designs clause as the subject and the style Traditional Mandala, the prompt contains
  the clause of the style Abstract Designs, which was not requested.
\<close>

theorem clause_in_subject_counterexample:
  "''Create abstract, flowing patterns with curved lines and artistic interpretations.'' \<noteq> [] \<and>
   ''Simple'' \<in> set complexity_options \<and>
   ''Traditional Mandala'' \<in> set style_options \<and>
   ''Abstract Designs'' \<noteq> ''Traditional Mandala'' \<and>
   style_prompts ''Abstract Designs'' =
     Some ''Create abstract, flowing patterns with curved lines and artistic interpretations.'' \<and>
   \<not> isl (create_mandala_prompt
            ''Create abstract, flowing patterns with curved lines and artistic interpretations.''
            ''Simple'' ''Traditional Mandala'') \<and>
   sublist ''Create abstract, flowing patterns with curved lines and artistic interpretations.''
     (projr (create_mandala_prompt
               ''Create abstract, flowing patterns with curved lines and artistic interpretations.''
               ''Simple'' ''Traditional Mandala''))"
proof -
  let ?w = "''Create abstract, flowing patterns with curved lines and artistic interpretations.''"
  obtain cs where cs: "complexity_prompts ''Simple'' = Some cs"
    using Simple_option complexity_prompts_Some by blast
  obtain ts where ts: "style_prompts ''Traditional Mandala'' = Some ts"
    using Traditional_option style_prompts_Some by blast
  let ?p = "base_prompt ?w @ '' '' @ cs @ '' '' @ ts @ '' '' @ technical_specs"
  have p: "create_mandala_prompt ?w ''Simple'' ''Traditional Mandala'' = Inr ?p"
    by (rule create_mandala_prompt_Inr [OF cs ts])
  have "sublist ?w (base_prompt_head @ ?w @
          (base_prompt_tail @ '' '' @ cs @ '' '' @ ts @ '' '' @ technical_specs))"
    by (rule sublist_appendI)
  then have sub: "sublist ?w ?p"
    by (simp only: base_prompt_def append_assoc)
  have a: "?w \<noteq> []" by simp
  have b: "''Abstract Designs'' \<noteq> ''Traditional Mandala''" by simp
  have c: "style_prompts ''Abstract Designs'' = Some ?w"
    by (simp add: style_prompts_def)
  from p sub have d: "\<not> isl (create_mandala_prompt ?w ''Simple'' ''Traditional Mandala'')"
    and e: "sublist ?w (projr (create_mandala_prompt ?w ''Simple'' ''Traditional Mandala''))"
    by simp_all
  from a Simple_option Traditional_option b c d e show ?thesis
    by blast
qed

text \<open>
  Claim C4, amended. For every valid triple the prompt contains the clause of the
  requested complexity and the clause of the requested style. A clause of either table
  occurs in the prompt exactly when it is the requested one or occurs in the subject
  itself. So for a subject that contains no clause text, exactly one complexity clause and
  exactly one style clause occur in the prompt, those of the requested values.
\<close>

theorem create_mandala_prompt_clauses:
  assumes "word \<noteq> []" and "complexity \<in> set complexity_options" and "style \<in> set style_options"
  shows "\<exists>p cclause sclause.
           create_mandala_prompt word complexity style = Inr p \<and>
           complexity_prompts complexity = Some cclause \<and>
           style_prompts style = Some sclause \<and>
           sublist cclause p \<and> sublist sclause p \<and>
           (\<forall>c cl. complexity_prompts c = Some cl \<longrightarrow>
                    (sublist cl p \<longleftrightarrow> c = complexity \<or> sublist cl word)) \<and>
           (\<forall>s cl. style_prompts s = Some cl \<longrightarrow>
                    (sublist cl p \<longleftrightarrow> s = style \<or> sublist cl word))"
proof -
  obtain cclause where cc: "complexity_prompts complexity = Some cclause"
    using assms(2) complexity_prompts_Some by blast
  obtain sclause where sc: "style_prompts style = Some sclause"
    using assms(3) style_prompts_Some by blast
  let ?p = "base_prompt word @ '' '' @ cclause @ '' '' @ sclause @ '' '' @ technical_specs"
  have p: "create_mandala_prompt word complexity style = Inr ?p"
    by (rule create_mandala_prompt_Inr [OF cc sc])
  have 1: "sublist cclause ?p"
    using complexity_clause_in_prompt [OF cc cc sc, of word] by simp
  have 2: "sublist sclause ?p"
    using style_clause_in_prompt [OF sc cc sc, of word] by simp
  have 3: "\<forall>c cl. complexity_prompts c = Some cl \<longrightarrow>
             (sublist cl ?p \<longleftrightarrow> c = complexity \<or> sublist cl word)"
    using complexity_clause_in_prompt [OF _ cc sc] by blast
  have 4: "\<forall>s cl. style_prompts s = Some cl \<longrightarrow>
             (sublist cl ?p \<longleftrightarrow> s = style \<or> sublist cl word)"
    using style_clause_in_prompt [OF _ cc sc] by blast
  from p cc sc 1 2 3 4 show ?thesis
    by blast
qed

theorem create_mandala_prompt_clauses_witness:
  "''peace'' \<noteq> [] \<and> ''Simple'' \<in> set complexity_options \<and>
   ''Traditional Mandala'' \<in> set style_options \<and>
   (\<exists>p cclause sclause.
      create_mandala_prompt ''peace'' ''Simple'' ''Traditional Mandala'' = Inr p \<and>
      complexity_prompts ''Simple'' = Some cclause \<and>
      style_prompts ''Traditional Mandala'' = Some sclause \<and>
      sublist cclause p \<and> sublist sclause p \<and>
      (\<forall>c cl. complexity_prompts c = Some cl \<longrightarrow>
               (sublist cl p \<longleftrightarrow> c = ''Simple'' \<or> sublist cl ''peace'')) \<and>
      (\<forall>s cl. style_prompts s = Some cl \<longrightarrow>
               (sublist cl p \<longleftrightarrow> s = ''Traditional Mandala'' \<or> sublist cl ''peace'')))"
proof -
  have w: "''peace'' \<noteq> []" by simp
  from create_mandala_prompt_clauses [OF w Simple_option Traditional_option]
    w Simple_option Traditional_option
  show ?thesis by blast
qed

subsection \<open>Values outside the option lists\<close>

text \<open>
  Claim C6. Whenever the complexity or the style is outside its four-value list, the call
  fails: it raises \<^verbatim>\<open>KeyError\<close> (the program's form of the invalid-option error)
  on the offending value and returns no prompt.
\<close>

theorem create_mandala_prompt_invalid_option:
  assumes "complexity \<notin> set complexity_options \<or> style \<notin> set style_options"
  shows "(\<exists>k. create_mandala_prompt word complexity style = Inl (KeyError k) \<and>
              (k = complexity \<or> k = style)) \<and>
         (\<forall>p. create_mandala_prompt word complexity style \<noteq> Inr p)"
proof (cases "complexity_prompts complexity")
  case None
  then show ?thesis
    by (simp add: create_mandala_prompt_Inl_complexity)
next
  case (Some cclause)
  then have "complexity \<in> set complexity_options"
    using dom_complexity_prompts by blast
  with assms have "style_prompts style = None"
    by (simp add: style_prompts_None)
  with Some show ?thesis
    by (simp add: create_mandala_prompt_Inl_style)
qed

theorem create_mandala_prompt_invalid_option_witness:
  "''Extreme'' \<notin> set complexity_options \<and>
   (\<exists>k. create_mandala_prompt ''peace'' ''Extreme'' ''Traditional Mandala'' = Inl (KeyError k) \<and>
        (k = ''Extreme'' \<or> k = ''Traditional Mandala'')) \<and>
   (\<forall>p. create_mandala_prompt ''peace'' ''Extreme'' ''Traditional Mandala'' \<noteq> Inr p)"
  using create_mandala_prompt_invalid_option
    [of "''Extreme''" "''Traditional Mandala''" "''peace''"]
    Extreme_no_option
  by simp

subsection \<open>The worked example\<close>

lemma Simple_clause:
  "\<exists>cs. complexity_prompts ''Simple'' = Some cs \<and> sublist ''clean, simple geometric patterns'' cs"
  by (simp add: complexity_prompts_def sublist_code(3))

lemma Traditional_clause:
  "\<exists>ts. style_prompts ''Traditional Mandala'' = Some ts \<and>
        sublist ''Sanskrit mandala design principles'' ts"
  by (simp add: style_prompts_def sublist_code(3))

lemma Simple_Very_Detailed_clauses:
  "\<exists>cs cv. complexity_prompts ''Simple'' = Some cs \<and>
           complexity_prompts ''Very Detailed'' = Some cv \<and> cs \<noteq> cv"
  by (simp add: complexity_prompts_def)

text \<open>
  Claim C7. The prompt for the subject "peace", complexity Simple and style Traditional
  Mandala contains "peace", the Simple clause (the one with the words "clean, simple
  geometric patterns"), the Traditional clause (the one with the words "Sanskrit mandala
  design principles") and the technical block. For any subject and any style of the
  option list, going from Simple to Very Detailed replaces the complexity clause and
  nothing else: what stands before the clause and what stands after it are the same
  strings in both prompts.
\<close>

theorem peace_example_and_complexity_swap:
  assumes "style \<in> set style_options"
  shows "(\<exists>p cs ts. create_mandala_prompt ''peace'' ''Simple'' ''Traditional Mandala'' = Inr p \<and>
            complexity_prompts ''Simple'' = Some cs \<and>
            style_prompts ''Traditional Mandala'' = Some ts \<and>
            sublist ''clean, simple geometric patterns'' cs \<and>
            sublist ''Sanskrit mandala design principles'' ts \<and>
            sublist ''peace'' p \<and> sublist cs p \<and> sublist ts p \<and> sublist technical_specs p) \<and>
         (\<exists>front rest cs cv.
            complexity_prompts ''Simple'' = Some cs \<and>
            complexity_prompts ''Very Detailed'' = Some cv \<and> cs \<noteq> cv \<and>
            front = base_prompt word @ '' '' \<and> suffix technical_specs rest \<and>
            create_mandala_prompt word ''Simple'' style = Inr (front @ cs @ rest) \<and>
            create_mandala_prompt word ''Very Detailed'' style = Inr (front @ cv @ rest))"
proof
  obtain cs where cs: "complexity_prompts ''Simple'' = Some cs"
    and cs_text: "sublist ''clean, simple geometric patterns'' cs"
    using Simple_clause by blast
  obtain ts where ts: "style_prompts ''Traditional Mandala'' = Some ts"
    and ts_text: "sublist ''Sanskrit mandala design principles'' ts"
    using Traditional_clause by blast
  let ?p = "base_prompt ''peace'' @ '' '' @ cs @ '' '' @ ts @ '' '' @ technical_specs"
  have p: "create_mandala_prompt ''peace'' ''Simple'' ''Traditional Mandala'' = Inr ?p"
    by (rule create_mandala_prompt_Inr [OF cs ts])
  have "sublist ''peace'' (base_prompt_head @ ''peace'' @
          (base_prompt_tail @ '' '' @ cs @ '' '' @ ts @ '' '' @ technical_specs))"
    by (rule sublist_appendI)
  then have 1: "sublist ''peace'' ?p"
    by (simp add: base_prompt_def)
  have "sublist cs ((base_prompt ''peace'' @ '' '') @ cs @ ('' '' @ ts @ '' '' @ technical_specs))"
    by (rule sublist_appendI)
  then have 2: "sublist cs ?p"
    by simp
  have "sublist ts ((base_prompt ''peace'' @ '' '' @ cs @ '' '') @ ts @ ('' '' @ technical_specs))"
    by (rule sublist_appendI)
  then have 3: "sublist ts ?p"
    by simp
  have "sublist technical_specs ((base_prompt ''peace'' @ '' '' @ cs @ '' '' @ ts @ '' '') @ technical_specs)"
    by (rule sublist_append_leftI)
  then have 4: "sublist technical_specs ?p"
    by simp
  from p cs ts cs_text ts_text 1 2 3 4
  show "\<exists>p cs ts. create_mandala_prompt ''peace'' ''Simple'' ''Traditional Mandala'' = Inr p \<and>
            complexity_prompts ''Simple'' = Some cs \<and>
            style_prompts ''Traditional Mandala'' = Some ts \<and>
            sublist ''clean, simple geometric patterns'' cs \<and>
            sublist ''Sanskrit mandala design principles'' ts \<and>
            sublist ''peace'' p \<and> sublist cs p \<and> sublist ts p \<and> sublist technical_specs p"
    by blast
next
  obtain cs cv where cs: "complexity_prompts ''Simple'' = Some cs"
    and cv: "complexity_prompts ''Very Detailed'' = Some cv" and ne: "cs \<noteq> cv"
    using Simple_Very_Detailed_clauses by blast
  obtain sclause where s: "style_prompts style = Some sclause"
    using assms style_prompts_Some by blast
  let ?front = "base_prompt word @ '' ''"
  let ?rest = "'' '' @ sclause @ '' '' @ technical_specs"
  have "suffix technical_specs (('' '' @ sclause @ '' '') @ technical_specs)"
    by (rule suffix_appendI) simp
  then have sfx: "suffix technical_specs ?rest"
    by simp
  have a: "create_mandala_prompt word ''Simple'' style = Inr (?front @ cs @ ?rest)"
    using create_mandala_prompt_Inr [OF cs s] by simp
  have b: "create_mandala_prompt word ''Very Detailed'' style = Inr (?front @ cv @ ?rest)"
    using create_mandala_prompt_Inr [OF cv s] by simp
  from cs cv ne sfx a b
  show "\<exists>front rest cs cv.
            complexity_prompts ''Simple'' = Some cs \<and>
            complexity_prompts ''Very Detailed'' = Some cv \<and> cs \<noteq> cv \<and>
            front = base_prompt word @ '' '' \<and> suffix technical_specs rest \<and>
            create_mandala_prompt word ''Simple'' style = Inr (front @ cs @ rest) \<and>
            create_mandala_prompt word ''Very Detailed'' style = Inr (front @ cv @ rest)"
    by blast
qed

theorem peace_example_and_complexity_swap_witness:
  "''Geometric Patterns'' \<in> set style_options \<and>
   (\<exists>front rest cs cv.
      complexity_prompts ''Simple'' = Some cs \<and>
      complexity_prompts ''Very Detailed'' = Some cv \<and> cs \<noteq> cv \<and>
      front = base_prompt ''love'' @ '' '' \<and> suffix technical_specs rest \<and>
      create_mandala_prompt ''love'' ''Simple'' ''Geometric Patterns'' = Inr (front @ cs @ rest) \<and>
      create_mandala_prompt ''love'' ''Very Detailed'' ''Geometric Patterns'' = Inr (front @ cv @ rest))"
proof -
  have h: "''Geometric Patterns'' \<in> set style_options"
    by (simp add: style_options_def)
  from peace_example_and_complexity_swap [OF h, of "''love''"] h show ?thesis
    by blast
qed

subsection \<open>Unexpected sizes and complexities\<close>

text \<open>
  The three sizes the form offers are parsed to their dimensions. The parse looks for a
  substring, so a string outside the form's list that holds one of the two non-default
  dimensions is parsed to that dimension.
\<close>

lemma image_size_options:
  "map image_size size_options = [''1024x1024'', ''1792x1024'', ''1024x1792'']"
  by (simp add: image_size_def size_options_def sublist_code(3))

lemma image_size_substring:
  "''1792x1024'' \<notin> set size_options \<and> image_size ''1792x1024'' = ''1792x1024''"
  by (simp add: image_size_def size_options_def sublist_code(3))

text \<open>
  Claim C8 says that an unexpected complexity makes the builder use a default
  complexity instead of failing. The builder has no fallback: on the complexity
  "Extreme", which is not in the option list, it raises \<^verbatim>\<open>KeyError\<close>.
\<close>

theorem no_complexity_fallback_counterexample:
  "''Extreme'' \<notin> set complexity_options \<and>
   create_mandala_prompt ''peace'' ''Extreme'' ''Traditional Mandala'' = Inl (KeyError ''Extreme'')"
  by (simp add: complexity_options_def create_mandala_prompt_def complexity_prompts_def)

text \<open>
  Claim C8, amended. Every size string that holds neither "1792x1024" nor "1024x1792" as a
  substring is parsed to the default "1024x1024"; for every complexity outside the option
  list the builder raises \<^verbatim>\<open>KeyError\<close> on that complexity and returns no prompt.
\<close>

theorem unexpected_values:
  "(\<not> sublist ''1792x1024'' size_str \<and> \<not> sublist ''1024x1792'' size_str \<longrightarrow>
      image_size size_str = ''1024x1024'') \<and>
   (complexity \<notin> set complexity_options \<longrightarrow>
      create_mandala_prompt word complexity style = Inl (KeyError complexity))"
  by (simp add: image_size_def complexity_prompts_None create_mandala_prompt_Inl_complexity)

theorem unexpected_values_witness:
  "\<not> sublist ''1792x1024'' ''512x512'' \<and> \<not> sublist ''1024x1792'' ''512x512'' \<and>
   image_size ''512x512'' = ''1024x1024'' \<and>
   ''Extreme'' \<notin> set complexity_options \<and>
   create_mandala_prompt ''peace'' ''Extreme'' ''Traditional Mandala'' = Inl (KeyError ''Extreme'')"
proof -
  have a: "\<not> sublist ''1792x1024'' ''512x512'' \<and> \<not> sublist ''1024x1792'' ''512x512''"
    by (simp add: sublist_code(3))
  have b: "''Extreme'' \<notin> set complexity_options"
    by (simp add: complexity_options_def)
  from unexpected_values [of "''512x512''" "''Extreme''" "''peace''" "''Traditional Mandala''"] a b
  show ?thesis by blast
qed

subsection \<open>The dispatch guard\<close>

text \<open>
  Two places of \<^verbatim>\<open>main\<close> look at the emptiness of the API key and of the subject:
  the \<^verbatim>\<open>disabled\<close> argument of the button (line 133) and the chain of the right-hand
  column (lines 140, 217 and 219), which runs on every pass of the script.
\<close>

lemma button_disabled_iff:
  "button_disabled api_key word \<longleftrightarrow> api_key = [] \<or> word = []"
  by (simp add: button_disabled_def)

lemma main_branch_Generate_iff:
  "main_branch generate_button api_key word = Generate \<longleftrightarrow>
     generate_button \<and> api_key \<noteq> [] \<and> word \<noteq> []"
  by (simp add: main_branch_def)

lemma main_branch_InfoApiKey_iff:
  "main_branch generate_button api_key word = InfoApiKey \<longleftrightarrow> api_key = []"
  by (simp add: main_branch_def)

lemma main_branch_InfoWord_iff:
  "main_branch generate_button api_key word = InfoWord \<longleftrightarrow> api_key \<noteq> [] \<and> word = []"
  by (simp add: main_branch_def)

lemma main_branch_Idle_iff:
  "main_branch generate_button api_key word = Idle \<longleftrightarrow>
     \<not> generate_button \<and> api_key \<noteq> [] \<and> word \<noteq> []"
  by (simp add: main_branch_def)

text \<open>
  Claim C9 says that a missing subject or key is prevented by disabling the button and that
  there is no separate validation of emptiness at run time. The chain of the right-hand
  column is such a validation. On the page as first loaded (no click, no key, no subject)
  it shows the hint about the key; with a key and no subject it shows the hint about the
  subject; with both it shows nothing. And where the button reports a click although the
  subject is empty and the button was created disabled, the test at line 140 refuses the
  generation and line 219 reports the missing subject.
\<close>

theorem runtime_validation_counterexample:
  "main_branch False [] [] = InfoApiKey \<and>
   main_branch False ''sk-test'' [] = InfoWord \<and>
   main_branch False ''sk-test'' ''peace'' = Idle \<and>
   button_disabled ''sk-test'' [] \<and>
   main_branch True ''sk-test'' [] = InfoWord"
  by (simp add: main_branch_def button_disabled_def)

text \<open>
  Claim C9, amended. A generation is never dispatched with a missing subject or a missing
  API key: the button is disabled exactly when the key or the subject is empty, and,
  apart from that, the code validates emptiness at run time on every pass. The generation
  branch is taken exactly when the button reports a click and both the key and the
  subject are non-empty, whatever the button reports; an empty key is reported by the
  hint about the key, an empty subject with a key present by the hint about the subject.
  The two places agree: a hint is shown exactly when the button is disabled, and the
  generation branch is never taken while the button is disabled.
\<close>

theorem dispatch_runtime_guard:
  "(button_disabled api_key word \<longleftrightarrow> api_key = [] \<or> word = []) \<and>
   (main_branch generate_button api_key word = Generate \<longleftrightarrow>
      generate_button \<and> api_key \<noteq> [] \<and> word \<noteq> []) \<and>
   (main_branch generate_button api_key word = InfoApiKey \<longleftrightarrow> api_key = []) \<and>
   (main_branch generate_button api_key word = InfoWord \<longleftrightarrow>
      api_key \<noteq> [] \<and> word = []) \<and>
   (button_disabled api_key word \<longleftrightarrow>
      main_branch generate_button api_key word = InfoApiKey \<or>
      main_branch generate_button api_key word = InfoWord) \<and>
   (main_branch generate_button api_key word = Generate \<longrightarrow>
      \<not> button_disabled api_key word)"
proof (intro conjI)
  show "button_disabled api_key word \<longleftrightarrow> api_key = [] \<or> word = []"
    by (rule button_disabled_iff)
  show "main_branch generate_button api_key word = Generate \<longleftrightarrow>
      generate_button \<and> api_key \<noteq> [] \<and> word \<noteq> []"
    by (rule main_branch_Generate_iff)
  show "main_branch generate_button api_key word = InfoApiKey \<longleftrightarrow> api_key = []"
    by (rule main_branch_InfoApiKey_iff)
  show "main_branch generate_button api_key word = InfoWord \<longleftrightarrow>
      api_key \<noteq> [] \<and> word = []"
    by (rule main_branch_InfoWord_iff)
  show "button_disabled api_key word \<longleftrightarrow>
      main_branch generate_button api_key word = InfoApiKey \<or>
      main_branch generate_button api_key word = InfoWord"
    unfolding button_disabled_iff main_branch_InfoApiKey_iff main_branch_InfoWord_iff
    by blast
  show "main_branch generate_button api_key word = Generate \<longrightarrow>
      \<not> button_disabled api_key word"
    unfolding button_disabled_iff main_branch_Generate_iff
    by blast
qed

theorem dispatch_runtime_guard_witness:
  "main_branch True ''sk-test'' ''peace'' = Generate \<and>
   \<not> button_disabled ''sk-test'' ''peace'' \<and>
   main_branch True ''sk-test'' [] = InfoWord \<and> button_disabled ''sk-test'' [] \<and>
   main_branch True [] ''peace'' = InfoApiKey \<and> button_disabled [] ''peace''"
  using dispatch_runtime_guard [of "''sk-test''" "''peace''" True]
    dispatch_runtime_guard [of "''sk-test''" "[]" True]
    dispatch_runtime_guard [of "[]" "''peace''" True]
  by simp

subsection \<open>The builder does not inspect the subject\<close>

text \<open>
  Claim C10. For every complexity and style of the option lists and every subject, the
  empty one included, the builder returns a prompt that begins with the base sentence
  holding that subject between the two apostrophes. The builder raises exactly when the
  complexity or the style is outside its option list, never because of the subject.
\<close>

theorem create_mandala_prompt_any_subject:
  "(complexity \<in> set complexity_options \<and> style \<in> set style_options \<longrightarrow>
      (\<exists>p. create_mandala_prompt word complexity style = Inr p \<and>
           prefix (base_prompt_head @ word @ base_prompt_tail) p \<and>
           last base_prompt_head = CHR 0x27 \<and> hd base_prompt_tail = CHR 0x27)) \<and>
   ((\<exists>e. create_mandala_prompt word complexity style = Inl e) \<longleftrightarrow>
      complexity \<notin> set complexity_options \<or> style \<notin> set style_options)"
proof (intro conjI impI)
  assume v: "complexity \<in> set complexity_options \<and> style \<in> set style_options"
  obtain cclause where c: "complexity_prompts complexity = Some cclause"
    using v complexity_prompts_Some by blast
  obtain sclause where s: "style_prompts style = Some sclause"
    using v style_prompts_Some by blast
  have q: "last base_prompt_head = CHR 0x27 \<and> hd base_prompt_tail = CHR 0x27"
    by (simp add: base_prompt_head_def base_prompt_tail_def)
  have "prefix (base_prompt_head @ word @ base_prompt_tail)
          ((base_prompt_head @ word @ base_prompt_tail) @
             '' '' @ cclause @ '' '' @ sclause @ '' '' @ technical_specs)"
    by (rule prefixI) simp
  with q create_mandala_prompt_Inr [OF c s]
  show "\<exists>p. create_mandala_prompt word complexity style = Inr p \<and>
           prefix (base_prompt_head @ word @ base_prompt_tail) p \<and>
           last base_prompt_head = CHR 0x27 \<and> hd base_prompt_tail = CHR 0x27"
    by (simp add: base_prompt_def)
next
  show "(\<exists>e. create_mandala_prompt word complexity style = Inl e) \<longleftrightarrow>
      complexity \<notin> set complexity_options \<or> style \<notin> set style_options"
  proof (cases "complexity_prompts complexity")
    case None
    then have "complexity \<notin> set complexity_options"
      using dom_complexity_prompts by blast
    with None show ?thesis
      by (simp add: create_mandala_prompt_Inl_complexity)
  next
    case (Some cclause)
    then have c: "complexity \<in> set complexity_options"
      using dom_complexity_prompts by blast
    show ?thesis
    proof (cases "style_prompts style")
      case None
      then have "style \<notin> set style_options"
        using dom_style_prompts by blast
      with Some None show ?thesis
        by (simp add: create_mandala_prompt_Inl_style)
    next
      case (Some sclause)
      then have "style \<in> set style_options"
        using dom_style_prompts by blast
      with c create_mandala_prompt_Inr [OF \<open>complexity_prompts complexity = Some cclause\<close> Some]
      show ?thesis by simp
    qed
  qed
qed

theorem create_mandala_prompt_any_subject_witness:
  "''Simple'' \<in> set complexity_options \<and> ''Traditional Mandala'' \<in> set style_options \<and>
   (\<exists>p. create_mandala_prompt [] ''Simple'' ''Traditional Mandala'' = Inr p \<and>
        prefix (base_prompt_head @ [] @ base_prompt_tail) p)"
  using create_mandala_prompt_any_subject [of "''Simple''" "''Traditional Mandala''" "[]"]
    Simple_option Traditional_option
  by blast

end
